theory Spec2Isabelle
  imports Complex_Main "HOL-Library.Sublist"
begin

section \<open>Quotex signal API: a shallow embedding of \<^verbatim>\<open>main.py\<close>\<close>

text \<open>
  The model follows \<^verbatim>\<open>src/main.py\<close> function by function. Python floats are
  idealised as reals, Python ints as \<open>int\<close>, strings as byte lists. Every exception
  the source can raise is a value: the result of a fallible step is \<open>py_error + 'a\<close>,
  and what an external call of the pyquotex library does (return or raise) is an
  \<open>outcome\<close> supplied by the environment.
\<close>

subsection \<open>Errors and outcomes of external calls\<close>

datatype py_error =
    IndexError
  | ValueError
  | ZeroDivisionError
  | AttributeError
  | LibraryError string

datatype 'a outcome = Returns 'a | Raises string

definition of_outcome :: "'a outcome \<Rightarrow> py_error + 'a" where
  "of_outcome r = (case r of Returns v \<Rightarrow> Inr v | Raises m \<Rightarrow> Inl (LibraryError m))"

subsection \<open>Python string operations used by the source\<close>

text \<open>\<^verbatim>\<open>sub in s\<close> on strings: contiguous containment.\<close>

fun py_in :: "string \<Rightarrow> string \<Rightarrow> bool" where
  "py_in sub [] = (sub = [])"
| "py_in sub (c # cs) = (prefix sub (c # cs) \<or> py_in sub cs)"

text \<open>
  \<^verbatim>\<open>s.replace(old, new)\<close>: non-overlapping occurrences, leftmost first. With an
  empty \<open>old\<close> Python puts \<open>new\<close> before every character and at the end.
\<close>

function py_replace :: "string \<Rightarrow> string \<Rightarrow> string \<Rightarrow> string" where
  "py_replace old new s =
     (if old = [] then new @ concat (map (\<lambda>c. c # new) s)
      else (case s of
              [] \<Rightarrow> []
            | c # cs \<Rightarrow>
                if prefix old s then new @ py_replace old new (drop (length old) s)
                else c # py_replace old new cs))"
  by pat_completeness auto
termination
  by (relation "measure (\<lambda>(old, new, s). length s)") auto

definition is_space :: "char \<Rightarrow> bool" where
  "is_space c = (c \<in> set [CHR '' '', CHR 0x09, CHR 0x0A, CHR 0x0B, CHR 0x0C, CHR 0x0D,
                             CHR 0x1C, CHR 0x1D, CHR 0x1E, CHR 0x1F])"

text \<open>\<^verbatim>\<open>s.strip()\<close>: white space removed at both ends.\<close>

definition py_strip :: "string \<Rightarrow> string" where
  "py_strip s = rev (dropWhile is_space (rev (dropWhile is_space s)))"

definition upper_char :: "char \<Rightarrow> char" where
  "upper_char c =
     (case map_of (zip ''abcdefghijklmnopqrstuvwxyz'' ''ABCDEFGHIJKLMNOPQRSTUVWXYZ'') c of
        Some u \<Rightarrow> u
      | None \<Rightarrow> c)"

text \<open>\<^verbatim>\<open>s.upper()\<close> on ASCII text; other bytes are left as they are.\<close>

definition py_upper :: "string \<Rightarrow> string" where
  "py_upper s = map upper_char s"

text \<open>\<^verbatim>\<open>sep.join(xs)\<close>.\<close>

fun py_join :: "string \<Rightarrow> string list \<Rightarrow> string" where
  "py_join sep [] = []"
| "py_join sep [x] = x"
| "py_join sep (x # y # ys) = x @ sep @ py_join sep (y # ys)"

definition digit_char :: "nat \<Rightarrow> char" where
  "digit_char d = ''0123456789'' ! d"

text \<open>Decimal rendering of a natural number, as \<^verbatim>\<open>str\<close> and f-strings do.\<close>

function str_nat :: "nat \<Rightarrow> string" where
  "str_nat n = (if n < 10 then [digit_char n] else str_nat (n div 10) @ [digit_char (n mod 10)])"
  by pat_completeness auto
termination
  by (relation "measure id") auto

definition str_int :: "int \<Rightarrow> string" where
  "str_int i = (if i < 0 then CHR ''-'' # str_nat (nat (- i)) else str_nat (nat i))"

definition digit_val :: "char \<Rightarrow> nat option" where
  "digit_val c = map_of (zip ''0123456789'' [0, 1, 2, 3, 4, 5, 6, 7, 8, 9]) c"

fun digits_val :: "nat \<Rightarrow> string \<Rightarrow> nat option" where
  "digits_val acc [] = Some acc"
| "digits_val acc (c # cs) =
     (case digit_val c of None \<Rightarrow> None | Some d \<Rightarrow> digits_val (10 * acc + d) cs)"

text \<open>
  \<^verbatim>\<open>int(s)\<close> on a string: surrounding white space, an optional sign and decimal
  digits; anything else raises ValueError. (Python also accepts underscores between
  digits; the source never produces them.)
\<close>

definition py_int :: "string \<Rightarrow> py_error + int" where
  "py_int s =
     (let t = py_strip s;
          (neg, ds) = (case t of
                         c # cs \<Rightarrow> if c = CHR ''-'' then (True, cs)
                                   else if c = CHR ''+'' then (False, cs)
                                   else (False, t)
                       | [] \<Rightarrow> (False, t))
      in if ds = [] then Inl ValueError
         else (case digits_val 0 ds of
                 None \<Rightarrow> Inl ValueError
               | Some n \<Rightarrow> Inr (if neg then - int n else int n)))"

subsection \<open>The broker client and the session\<close>

text \<open>
  One entry of \<^verbatim>\<open>get_payment()\<close>. \<open>AssetOther\<close> is a value that is not a dict.
  \<open>AssetDict opn pr\<close> is a dict: \<open>opn\<close> is the truth value of
  \<^verbatim>\<open>asset_data.get('open', False)\<close> and \<open>pr\<close> is
  \<^verbatim>\<open>asset_data.get('profit', {})\<close>, either not a dict (\<open>ProfitOther\<close>) or a dict
  whose \<^verbatim>\<open>'1M'\<close> entry is missing, a number, or a value on which \<^verbatim>\<open>float\<close> raises.
\<close>

datatype profit_1m = Missing | Num real | Unconvertible

datatype profit_data = ProfitDict profit_1m | ProfitOther

datatype asset_data = AssetDict bool profit_data | AssetOther

text \<open>
  A candle as the connector returns it: a dict whose keys may be absent
  (\<open>None\<close>); present values are numbers.
\<close>

record candle =
  c_open :: "real option"
  c_close :: "real option"
  c_max :: "real option"
  c_high :: "real option"
  c_min :: "real option"
  c_low :: "real option"

text \<open>
  A \<^verbatim>\<open>Quotex\<close> object. The fields after \<open>account_mode\<close> are what its methods
  do when called: \<open>get_candles k code\<close> is the result of the call
  \<^verbatim>\<open>get_candles(code, time.time(), 3600, 60)\<close> made after \<open>k\<close> earlier candle
  fetches of the same request (the clock is part of the environment).
  \<open>all_assets\<close> lists the keys of \<^verbatim>\<open>get_all_assets()\<close> in dict order.
\<close>

record client =
  email :: string
  password :: string
  lang :: string
  account_mode :: "string option"
  close_result :: "unit outcome"
  connect_result :: "(bool \<times> string) outcome"
  payment :: "(string \<times> asset_data) list"
  all_assets :: "string list"
  get_candles :: "nat \<Rightarrow> string \<Rightarrow> candle list outcome"

subsection \<open>\<^verbatim>\<open>get_high_payout_pairs\<close>\<close>

record pair_info =
  pi_name :: string
  pi_payout :: real

record candidate =
  asset_code :: string
  payout :: real
  display_name :: string

text \<open>
  \<^verbatim>\<open>float(profit_data.get('1M', 0)) if isinstance(profit_data, dict) else 0\<close>.
\<close>

definition payout_of :: "profit_data \<Rightarrow> py_error + real" where
  "payout_of profit =
     (case profit of
        ProfitOther \<Rightarrow> Inr 0
      | ProfitDict Missing \<Rightarrow> Inr 0
      | ProfitDict (Num p) \<Rightarrow> Inr p
      | ProfitDict Unconvertible \<Rightarrow> Inl ValueError)"

text \<open>
  The body of the first loop for one item: \<open>None\<close> when nothing is appended
  (\<^verbatim>\<open>continue\<close>, the bare \<^verbatim>\<open>except\<close>, or a payout below 90).
\<close>

definition high_payout_entry :: "string \<times> asset_data \<Rightarrow> pair_info option" where
  "high_payout_entry item =
     (case snd item of
        AssetOther \<Rightarrow> None
      | AssetDict opn profit \<Rightarrow>
          if \<not> opn then None
          else (case payout_of profit of
                  Inl e \<Rightarrow> None
                | Inr p \<Rightarrow>
                    if p \<ge> 90 then Some \<lparr>pi_name = fst item, pi_payout = p\<rparr> else None))"

definition high_payout_names :: "(string \<times> asset_data) list \<Rightarrow> pair_info list" where
  "high_payout_names payment_data = List.map_filter high_payout_entry payment_data"

definition display_clean :: "string \<Rightarrow> string" where
  "display_clean nm =
     py_upper (py_replace '' '' '''' (py_replace ''/'' ''''
       (py_strip (py_replace ''(otc)'' '''' (py_replace ''(OTC)'' '''' nm)))))"

definition asset_code_clean :: "string \<Rightarrow> string" where
  "asset_code_clean code = py_upper (py_replace ''_OTC'' '''' (py_replace ''_otc'' '''' code))"

definition code_matches :: "string \<Rightarrow> string \<Rightarrow> bool" where
  "code_matches dc code =
     (py_in dc (asset_code_clean code) \<or> py_in (asset_code_clean code) dc)"

text \<open>The inner loop with its \<^verbatim>\<open>break\<close>: the first matching code, if any.\<close>

fun first_match :: "string \<Rightarrow> string list \<Rightarrow> string option" where
  "first_match dc [] = None"
| "first_match dc (code # codes) =
     (if code_matches dc code then Some code else first_match dc codes)"

fun pairs_with_codes :: "string list \<Rightarrow> pair_info list \<Rightarrow> candidate list" where
  "pairs_with_codes codes [] = []"
| "pairs_with_codes codes (p # ps) =
     (case first_match (display_clean (pi_name p)) (take 100 codes) of
        None \<Rightarrow> pairs_with_codes codes ps
      | Some code \<Rightarrow>
          \<lparr>asset_code = code, payout = pi_payout p, display_name = pi_name p\<rparr>
            # pairs_with_codes codes ps)"

text \<open>
  \<^verbatim>\<open>sort(key=payout, reverse=True)\<close> is stable: equal payouts keep their order.
\<close>

definition sort_by_payout_desc :: "candidate list \<Rightarrow> candidate list" where
  "sort_by_payout_desc ps = sort_key (\<lambda>x. - payout x) ps"

definition get_high_payout_pairs :: "client option \<Rightarrow> candidate list" where
  "get_high_payout_pairs bot_client =
     (case bot_client of
        None \<Rightarrow> []
      | Some bc \<Rightarrow>
          if payment bc = [] \<or> all_assets bc = [] then []
          else take 10 (sort_by_payout_desc
                 (pairs_with_codes (all_assets bc) (high_payout_names (payment bc)))))"

subsection \<open>Python list access and arithmetic\<close>

text \<open>\<^verbatim>\<open>xs[i]\<close>: a negative index counts from the end; out of range raises.\<close>

definition py_get :: "'a list \<Rightarrow> int \<Rightarrow> py_error + 'a" where
  "py_get xs i =
     (if 0 \<le> i \<and> i < int (length xs) then Inr (xs ! nat i)
      else if i < 0 \<and> - int (length xs) \<le> i then Inr (xs ! nat (int (length xs) + i))
      else Inl IndexError)"

text \<open>\<^verbatim>\<open>xs[-n:]\<close> for \<open>n > 0\<close>: the last \<open>n\<close> elements, all of a shorter list.\<close>

definition last_n :: "nat \<Rightarrow> 'a list \<Rightarrow> 'a list" where
  "last_n n xs = drop (length xs - n) xs"

fun py_max :: "real list \<Rightarrow> py_error + real" where
  "py_max [] = Inl ValueError"
| "py_max (x # xs) = Inr (fold max xs x)"

fun py_min :: "real list \<Rightarrow> py_error + real" where
  "py_min [] = Inl ValueError"
| "py_min (x # xs) = Inr (fold min xs x)"

definition py_div :: "real \<Rightarrow> real \<Rightarrow> py_error + real" where
  "py_div a b = (if b = 0 then Inl ZeroDivisionError else Inr (a / b))"

definition round_half_even :: "real \<Rightarrow> int" where
  "round_half_even x =
     (let f = \<lfloor>x\<rfloor>; d = x - of_int f
      in if d < 1 / 2 then f else if 1 / 2 < d then f + 1 else if even f then f else f + 1)"

text \<open>\<^verbatim>\<open>round(x, 5)\<close>.\<close>

definition round5 :: "real \<Rightarrow> real" where
  "round5 x = of_int (round_half_even (x * 100000)) / 100000"

text \<open>The format \<^verbatim>\<open>{x:.1f}\<close>.\<close>

definition fmt_1f :: "real \<Rightarrow> string" where
  "fmt_1f x =
     (let m = nat \<bar>round_half_even (x * 10)\<bar>
      in (if x < 0 then ''-'' else []) @ str_nat (m div 10) @ ''.'' @ [digit_char (m mod 10)])"

subsection \<open>Indicators\<close>

definition closes_of :: "candle list \<Rightarrow> real list" where
  "closes_of candles = map (\<lambda>c. case c_close c of Some v \<Rightarrow> v | None \<Rightarrow> 0) candles"

definition highs_of :: "candle list \<Rightarrow> real list \<Rightarrow> real list" where
  "highs_of candles closes =
     map (\<lambda>(c, cl). case c_max c of Some v \<Rightarrow> v
                    | None \<Rightarrow> (case c_high c of Some v \<Rightarrow> v | None \<Rightarrow> cl))
         (zip candles closes)"

definition lows_of :: "candle list \<Rightarrow> real list \<Rightarrow> real list" where
  "lows_of candles closes =
     map (\<lambda>(c, cl). case c_min c of Some v \<Rightarrow> v
                    | None \<Rightarrow> (case c_low c of Some v \<Rightarrow> v | None \<Rightarrow> cl))
         (zip candles closes)"

text \<open>
  The loop \<^verbatim>\<open>for i in range(-15, -1)\<close> of the RSI calculation, over the list of
  its indices, carrying \<open>(gains, losses)\<close>.
\<close>

fun rsi_loop :: "real list \<Rightarrow> int list \<Rightarrow> real list \<times> real list
    \<Rightarrow> py_error + (real list \<times> real list)" where
  "rsi_loop closes [] acc = Inr acc"
| "rsi_loop closes (i # is) (gains, losses) =
     (case py_get closes (i + 1) of
        Inl e \<Rightarrow> Inl e
      | Inr a \<Rightarrow>
          (case py_get closes i of
             Inl e \<Rightarrow> Inl e
           | Inr b \<Rightarrow>
               if a - b \<ge> 0 then rsi_loop closes is (gains @ [a - b], losses)
               else rsi_loop closes is (gains, losses @ [\<bar>a - b\<bar>])))"

definition avg_gain_of :: "real list \<Rightarrow> real" where
  "avg_gain_of gains = (if gains \<noteq> [] then sum_list gains / 14 else 0.0001)"

definition avg_loss_of :: "real list \<Rightarrow> real" where
  "avg_loss_of losses = (if losses \<noteq> [] then sum_list losses / 14 else 0.0001)"

definition rsi_of :: "real list \<Rightarrow> py_error + real" where
  "rsi_of closes =
     (case rsi_loop closes [-15..-2] ([], []) of
        Inl e \<Rightarrow> Inl e
      | Inr (gains, losses) \<Rightarrow>
          (case py_div (avg_gain_of gains) (avg_loss_of losses) of
             Inl e \<Rightarrow> Inl e
           | Inr rs \<Rightarrow>
               (case py_div 100 (1 + rs) of
                  Inl e \<Rightarrow> Inl e
                | Inr q \<Rightarrow> Inr (100 - q))))"

text \<open>
  The values \<^verbatim>\<open>analyze_pair\<close> holds when it reaches the volatility filter:
  the indicator snapshot.
\<close>

record snapshot =
  snap_price :: real
  snap_support :: real
  snap_resistance :: real
  ma5 :: real
  ma20 :: real
  rsi :: real
  volatility_ok :: bool

definition indicators :: "candle list \<Rightarrow> py_error + snapshot" where
  "indicators candles =
     (let closes = closes_of candles;
          highs = highs_of candles closes;
          lows = lows_of candles closes
      in case py_get closes (- 1) of
           Inl e \<Rightarrow> Inl e
         | Inr cp \<Rightarrow>
      (case py_max (last_n 20 highs) of
           Inl e \<Rightarrow> Inl e
         | Inr res \<Rightarrow>
      (case py_min (last_n 20 lows) of
           Inl e \<Rightarrow> Inl e
         | Inr spt \<Rightarrow>
      (case rsi_of closes of
           Inl e \<Rightarrow> Inl e
         | Inr r \<Rightarrow>
      (case py_max (last_n 10 closes) of
           Inl e \<Rightarrow> Inl e
         | Inr hi \<Rightarrow>
      (case py_min (last_n 10 closes) of
           Inl e \<Rightarrow> Inl e
         | Inr lo \<Rightarrow>
             Inr \<lparr>snap_price = cp, snap_support = spt, snap_resistance = res,
                  ma5 = sum_list (last_n 5 closes) / 5,
                  ma20 = sum_list (last_n 20 closes) / 20,
                  rsi = r,
                  volatility_ok = (\<not> hi - lo < 0.00005)\<rparr>))))))"

subsection \<open>Scoring: lines 109 to 152 of \<^verbatim>\<open>analyze_pair\<close>\<close>

text \<open>
  The direction strings of the source carry a coloured circle after \<^verbatim>\<open>CALL\<close> and
  \<^verbatim>\<open>PUT\<close>; the model keeps the word.
\<close>

datatype direction = CALL | PUT

record signal =
  pair :: string
  direction :: direction
  confidence :: string
  time_frame :: string
  current_price :: real
  support :: real
  resistance :: real
  logic :: string

text \<open>Each step maps the running \<open>(score, logic)\<close> to the next one.\<close>

definition trend_check :: "snapshot \<Rightarrow> int \<times> string list \<Rightarrow> int \<times> string list" where
  "trend_check s st =
     (if ma5 s > ma20 s
      then (fst st + 40, snd st @ [''MA5 crossed above MA20 (Short-term Uptrend)''])
      else (fst st - 40, snd st @ [''MA5 crossed below MA20 (Short-term Downtrend)'']))"

definition rsi_check :: "snapshot \<Rightarrow> int \<times> string list \<Rightarrow> int \<times> string list" where
  "rsi_check s st =
     (if rsi s < 40
      then (fst st + 40,
            snd st @ [''RSI is oversold ('' @ fmt_1f (rsi s)
                        @ ''), indicating potential reversal upward''])
      else if rsi s > 60
      then (fst st - 40,
            snd st @ [''RSI is overbought ('' @ fmt_1f (rsi s)
                        @ ''), indicating potential reversal downward''])
      else st)"

definition distance_check :: "snapshot \<Rightarrow> int \<times> string list
    \<Rightarrow> py_error + (int \<times> string list)" where
  "distance_check s st =
     (case py_div \<bar>snap_price s - ma20 s\<bar> (ma20 s) of
        Inl e \<Rightarrow> Inl e
      | Inr d \<Rightarrow>
          Inr (if d < 0.002
               then (fst st + (if fst st > 0 then 20 else - 20),
                     snd st @ [''Price is testing the 20 MA baseline''])
               else st))"

definition make_signal :: "string \<Rightarrow> snapshot \<Rightarrow> direction \<Rightarrow> int \<Rightarrow> string list
    \<Rightarrow> signal" where
  "make_signal name s dir conf lg =
     \<lparr>pair = name, direction = dir, confidence = str_int conf @ ''%'',
      time_frame = ''1 Minute'',
      current_price = round5 (snap_price s),
      support = round5 (snap_support s),
      resistance = round5 (snap_resistance s),
      logic = py_join '' | '' lg\<rparr>"

definition compile_signal :: "string \<Rightarrow> snapshot \<Rightarrow> int \<times> string list
    \<Rightarrow> signal option" where
  "compile_signal name s st =
     (if fst st \<ge> 60 then Some (make_signal name s CALL (min (fst st) 98) (snd st))
      else if fst st \<le> - 60 then Some (make_signal name s PUT (min \<bar>fst st\<bar> 98) (snd st))
      else None)"

definition scoring_engine :: "string \<Rightarrow> snapshot \<Rightarrow> py_error + signal option" where
  "scoring_engine name s =
     (case distance_check s (rsi_check s (trend_check s (0, []))) of
        Inl e \<Rightarrow> Inl e
      | Inr st \<Rightarrow> Inr (compile_signal name s st))"

subsection \<open>\<^verbatim>\<open>analyze_pair\<close>\<close>

text \<open>
  \<open>pc\<close> is \<^verbatim>\<open>process_candles(candles, 60)\<close> of the pyquotex library, which may
  return a list of any length or raise.
\<close>

definition normalize_candles :: "(candle list \<Rightarrow> candle list outcome) \<Rightarrow> candle list
    \<Rightarrow> py_error + candle list" where
  "normalize_candles pc candles =
     (if c_open (hd candles) = None \<or> c_open (hd candles) = Some 0
      then of_outcome (pc candles) else Inr candles)"

definition analyze_candles :: "(candle list \<Rightarrow> candle list outcome) \<Rightarrow> candle list
    \<Rightarrow> string \<Rightarrow> py_error + signal option" where
  "analyze_candles pc candles name =
     (if candles = [] \<or> length candles < 30 then Inr None
      else (case normalize_candles pc candles of
              Inl e \<Rightarrow> Inl e
            | Inr cs \<Rightarrow>
                (case indicators cs of
                   Inl e \<Rightarrow> Inl e
                 | Inr s \<Rightarrow>
                     if \<not> volatility_ok s then Inr None else scoring_engine name s)))"

text \<open>The body of the \<^verbatim>\<open>try\<close>; \<open>k\<close> counts the candle fetches made before.\<close>

definition analyze_body :: "(candle list \<Rightarrow> candle list outcome) \<Rightarrow> client option
    \<Rightarrow> nat \<Rightarrow> string \<Rightarrow> string \<Rightarrow> py_error + signal option" where
  "analyze_body pc bot_client k code name =
     (case bot_client of
        None \<Rightarrow> Inl AttributeError
      | Some bc \<Rightarrow>
          (case of_outcome (get_candles bc k code) of
             Inl e \<Rightarrow> Inl e
           | Inr candles \<Rightarrow> analyze_candles pc candles name))"

text \<open>\<^verbatim>\<open>except Exception\<close>: every error is printed and becomes \<^verbatim>\<open>None\<close>.\<close>

definition analyze_pair :: "(candle list \<Rightarrow> candle list outcome) \<Rightarrow> client option
    \<Rightarrow> nat \<Rightarrow> string \<Rightarrow> string \<Rightarrow> signal option" where
  "analyze_pair pc bot_client k code name =
     (case analyze_body pc bot_client k code name of
        Inl e \<Rightarrow> None
      | Inr r \<Rightarrow> r)"

subsection \<open>The two endpoints\<close>

text \<open>
  An \<^verbatim>\<open>HTTPException\<close> has a status code and a detail; \<open>StrOf e\<close> is the detail
  \<^verbatim>\<open>str(e)\<close> built from another \<^verbatim>\<open>HTTPException\<close>.
\<close>

datatype detail = Text string | StrOf http_exception
  and http_exception = HTTPException nat detail

datatype body = StatusMessage string string | StatusData string signal

datatype response = Reply body | HTTPError http_exception | Unhandled py_error

record login_request =
  req_email :: string
  req_password :: string

text \<open>
  \<open>quotex e p l\<close> is the object \<^verbatim>\<open>Quotex(email=e, password=p, lang=l)\<close>. The
  result is the response and the value of the global \<^verbatim>\<open>bot_client\<close> afterwards.
\<close>

definition login :: "(string \<Rightarrow> string \<Rightarrow> string \<Rightarrow> client) \<Rightarrow> client option
    \<Rightarrow> login_request \<Rightarrow> response \<times> client option" where
  "login quotex bot_client req =
     (case (case bot_client of Some old \<Rightarrow> close_result old | None \<Rightarrow> Returns ()) of
        Raises m \<Rightarrow> (HTTPError (HTTPException 500 (Text m)), bot_client)
      | Returns u \<Rightarrow>
          (let bc = quotex (req_email req) (req_password req) ''en''
           in case connect_result bc of
                Raises m \<Rightarrow> (HTTPError (HTTPException 500 (Text m)), Some bc)
              | Returns (check, reason) \<Rightarrow>
                  if check
                  then (Reply (StatusMessage ''success''
                                 ''Successfully connected to Quotex websocket.''),
                        Some (bc\<lparr>account_mode := Some ''PRACTICE''\<rparr>))
                  else (HTTPError (HTTPException 500
                          (StrOf (HTTPException 401 (Text (''Login failed: '' @ reason))))),
                        None)))"

record loop_state =
  best_signal :: "signal option"
  highest_confidence :: int
  fetched :: "string list"

text \<open>\<^verbatim>\<open>int(signal['confidence'].replace('%', ''))\<close>.\<close>

definition conf_int_of :: "signal \<Rightarrow> py_error + int" where
  "conf_int_of sg = py_int (py_replace ''%'' [] (confidence sg))"

text \<open>
  The \<^verbatim>\<open>for pair in pairs\<close> loop of \<^verbatim>\<open>get_signal\<close>. \<open>fetched\<close> records the asset
  code of every candle fetch, in order. The first component of the result is the
  exception that left the loop, if one did. The pause between candidates has no
  effect on the values and is left out.
\<close>

fun select_loop :: "(candle list \<Rightarrow> candle list outcome) \<Rightarrow> client option
    \<Rightarrow> candidate list \<Rightarrow> loop_state \<Rightarrow> py_error option \<times> loop_state" where
  "select_loop pc bot_client [] st = (None, st)"
| "select_loop pc bot_client (p # ps) st =
     (let sig = analyze_pair pc bot_client (length (fetched st)) (asset_code p) (display_name p);
          st1 = st\<lparr>fetched := fetched st @ [asset_code p]\<rparr>
      in case sig of
           None \<Rightarrow> select_loop pc bot_client ps st1
         | Some sg \<Rightarrow>
             (case conf_int_of sg of
                Inl e \<Rightarrow> (Some e, st1)
              | Inr conf_int \<Rightarrow>
                  (let st2 = (if conf_int > highest_confidence st1
                              then st1\<lparr>highest_confidence := conf_int, best_signal := Some sg\<rparr>
                              else st1)
                   in if highest_confidence st2 \<ge> 90 then (None, st2)
                      else select_loop pc bot_client ps st2)))"

text \<open>The response of \<^verbatim>\<open>get_signal\<close> and the candle fetches it made.\<close>

definition get_signal :: "(candle list \<Rightarrow> candle list outcome) \<Rightarrow> client option
    \<Rightarrow> response \<times> string list" where
  "get_signal pc bot_client =
     (if bot_client = None
      then (HTTPError (HTTPException 401 (Text ''Bot is not logged in. Call /login first.'')), [])
      else (let pairs = get_high_payout_pairs bot_client
            in if pairs = []
               then (Reply (StatusMessage ''error''
                              ''Could not find any high payout pairs currently open.''), [])
               else (case select_loop pc bot_client pairs
                            \<lparr>best_signal = None, highest_confidence = 0, fetched = []\<rparr> of
                       (Some e, st) \<Rightarrow> (Unhandled e, fetched st)
                     | (None, st) \<Rightarrow>
                         (case best_signal st of
                            Some sg \<Rightarrow> (Reply (StatusData ''success'' sg), fetched st)
                          | None \<Rightarrow>
                              (Reply (StatusMessage ''waiting''
                                 ''No strong setups found right now. Try again in 1 minute.''),
                               fetched st)))))"


subsection \<open>Concrete inputs\<close>

text \<open>
  Thirty candles whose closes give a fast average 1002 above a slow average 1000,
  fourteen falling steps before the last close (RSI near 0) and a last close on the
  slow average: score 100.
\<close>

definition candle_at :: "real \<Rightarrow> candle" where
  "candle_at v = \<lparr>c_open = Some 1, c_close = Some v, c_max = None, c_high = None,
                  c_min = None, c_low = None\<rparr>"

definition strong_closes :: "real list" where
  "strong_closes = replicate 10 1000 @ replicate 5 979
     @ [1014, 1013, 1012, 1011, 1010, 1009, 1008, 1007, 1006, 1005, 1004, 1003, 1002, 1001, 1000]"

definition strong_candles :: "candle list" where
  "strong_candles = map candle_at strong_closes"

definition strong_logic :: string where
  "strong_logic = ''MA5 crossed above MA20 (Short-term Uptrend) | ''
     @ ''RSI is oversold (0.0), indicating potential reversal upward | ''
     @ ''Price is testing the 20 MA baseline''"

definition strong_signal :: "string \<Rightarrow> signal" where
  "strong_signal name = \<lparr>pair = name, direction = CALL, confidence = ''98%'',
     time_frame = ''1 Minute'', current_price = 1000, support = 979, resistance = 1014,
     logic = strong_logic\<rparr>"

definition mk_client :: "(string \<times> asset_data) list \<Rightarrow> string list
    \<Rightarrow> (nat \<Rightarrow> string \<Rightarrow> candle list outcome) \<Rightarrow> client" where
  "mk_client pay codes feed = \<lparr>email = ''user@example.com'', password = ''secret'',
     lang = ''en'', account_mode = Some ''PRACTICE'', close_result = Returns (),
     connect_result = Returns (True, []), payment = pay, all_assets = codes,
     get_candles = feed\<rparr>"

definition open_at :: "real \<Rightarrow> asset_data" where
  "open_at p = AssetDict True (ProfitDict (Num p))"

definition steady_feed :: "nat \<Rightarrow> string \<Rightarrow> candle list outcome" where
  "steady_feed k code = Returns strong_candles"

definition demo_client :: client where
  "demo_client = mk_client
     [(''EUR/USD (OTC)'', open_at 95), (''GBP/USD (OTC)'', open_at 92)]
     [''EURUSD_otc'', ''GBPUSD_otc''] steady_feed"

text \<open>The first-ranked instrument has no candles yet; the others are strong.\<close>

definition staged_feed :: "nat \<Rightarrow> string \<Rightarrow> candle list outcome" where
  "staged_feed k code = (if code = ''EURUSD_otc'' then Returns [] else Returns strong_candles)"

definition staged_client :: client where
  "staged_client = mk_client
     [(''EUR/USD (OTC)'', open_at 95), (''GBP/USD (OTC)'', open_at 93),
      (''USD/JPY (OTC)'', open_at 91)]
     [''EURUSD_otc'', ''GBPUSD_otc'', ''USDJPY_otc''] staged_feed"





text \<open>A connector whose \<^verbatim>\<open>connect()\<close> raises.\<close>

definition timeout_quotex :: "string \<Rightarrow> string \<Rightarrow> string \<Rightarrow> client" where
  "timeout_quotex e p l = \<lparr>email = e, password = p, lang = l, account_mode = None,
     close_result = Returns (), connect_result = Raises ''connection timed out'',
     payment = [], all_assets = [], get_candles = steady_feed\<rparr>"

definition demo_request :: login_request where
  "demo_request = \<lparr>req_email = ''user@example.com'', req_password = ''secret''\<rparr>"

text \<open>A snapshot in an uptrend (fast average 101, slow average 100).\<close>

definition uptrend_snapshot :: "real \<Rightarrow> real \<Rightarrow> snapshot" where
  "uptrend_snapshot price r = \<lparr>snap_price = price, snap_support = 99, snap_resistance = 102,
     ma5 = 101, ma20 = 100, rsi = r, volatility_ok = True\<rparr>"

section \<open>Properties\<close>

subsection \<open>Scores and confidence values\<close>

lemma running_score_values:
  "fst (rsi_check s (trend_check s (0, []))) \<in> {80, 40, 0, - 40, - 80}"
  by (simp add: rsi_check_def trend_check_def)

lemma distance_check_score:
  assumes "distance_check s st = Inr st'"
  shows "fst st' = fst st \<or> (0 < fst st \<and> fst st' = fst st + 20) \<or> (fst st \<le> 0 \<and> fst st' = fst st - 20)"
  using assms
  by (auto simp: distance_check_def py_div_def split: if_splits)

lemma final_score_values:
  assumes "distance_check s (rsi_check s (trend_check s (0, []))) = Inr st"
  shows "fst st \<in> {100, 80, 60, 40, 0, - 20, - 40, - 60, - 80, - 100}"
  using distance_check_score [OF assms] running_score_values [of s]
  by auto

lemma scoring_engine_signal:
  assumes "scoring_engine name s = Inr (Some sg)"
  shows "\<exists>dir c lg. c \<in> {60, 80, 98} \<and> sg = make_signal name s dir c lg"
proof -
  from assms obtain st where d: "distance_check s (rsi_check s (trend_check s (0, []))) = Inr st"
    and c: "compile_signal name s st = Some sg"
    by (auto simp: scoring_engine_def split: sum.splits)
  from final_score_values [OF d] c show ?thesis
    by (auto simp: compile_signal_def split: if_splits) blast+
qed

lemma conf_strings:
  "str_int 60 @ ''%'' = ''60%''" "str_int 80 @ ''%'' = ''80%''" "str_int 98 @ ''%'' = ''98%''"
  by code_simp+

lemma conf_int_values:
  "conf_int_of (make_signal name s dir 60 lg) = Inr 60"
  "conf_int_of (make_signal name s dir 80 lg) = Inr 80"
  "conf_int_of (make_signal name s dir 98 lg) = Inr 98"
  unfolding conf_int_of_def make_signal_def by (simp_all add: conf_strings) code_simp+

lemma analyze_pair_signal:
  assumes "analyze_pair pc bc k code name = Some sg"
  shows "\<exists>s dir c lg. c \<in> {60, 80, 98} \<and> sg = make_signal name s dir c lg"
proof -
  from assms obtain s where "scoring_engine name s = Inr (Some sg)"
    by (auto simp: analyze_pair_def analyze_body_def analyze_candles_def
             split: sum.splits option.splits if_splits)
  from scoring_engine_signal [OF this] show ?thesis by blast
qed

lemma analyze_pair_conf_int:
  assumes "analyze_pair pc bc k code name = Some sg"
  shows "\<exists>c. c \<in> {60, 80, 98} \<and> confidence sg = str_int c @ ''%'' \<and> conf_int_of sg = Inr c"
proof -
  from analyze_pair_signal [OF assms] obtain s dir c lg
    where c: "c \<in> {60, 80, 98}" and sg: "sg = make_signal name s dir c lg" by blast
  have "confidence sg = str_int c @ ''%''" by (simp add: sg make_signal_def)
  moreover have "conf_int_of sg = Inr c" using c sg conf_int_values by auto
  ultimately show ?thesis using c by blast
qed

lemma scoring_engine_conf_int:
  assumes "scoring_engine name s = Inr (Some sg)"
  shows "\<exists>c. c \<in> {60, 80, 98} \<and> confidence sg = str_int c @ ''%'' \<and> conf_int_of sg = Inr c"
proof -
  from scoring_engine_signal [OF assms] obtain dir c lg
    where c: "c \<in> {60, 80, 98}" and sg: "sg = make_signal name s dir c lg" by blast
  have "confidence sg = str_int c @ ''%''" by (simp add: sg make_signal_def)
  moreover have "conf_int_of sg = Inr c" using c sg conf_int_values by auto
  ultimately show ?thesis using c by blast
qed



lemma select_loop_breaks:
  assumes "highest_confidence st < 90"
    and "\<forall>i<length pre. \<forall>sg' c'.
           analyze_pair pc bc (length (fetched st) + i) (asset_code (pre ! i))
             (display_name (pre ! i)) = Some sg' \<longrightarrow> conf_int_of sg' = Inr c' \<longrightarrow> c' < 90"
    and "analyze_pair pc bc (length (fetched st) + length pre) (asset_code p) (display_name p)
           = Some sg"
    and "conf_int_of sg = Inr c" and "90 \<le> c"
  shows "select_loop pc bc (pre @ p # post) st
           = (None, \<lparr>best_signal = Some sg, highest_confidence = c,
                     fetched = fetched st @ map asset_code pre @ [asset_code p]\<rparr>)"
  using assms
proof (induction pre arbitrary: st)
  case Nil
  then show ?case by (simp add: Let_def)
next
  case (Cons x pre)
  let ?st1 = "st\<lparr>fetched := fetched st @ [asset_code x]\<rparr>"
  have shift: "\<forall>i<length pre. \<forall>sg' c'.
           analyze_pair pc bc (length (fetched st) + 1 + i) (asset_code (pre ! i))
             (display_name (pre ! i)) = Some sg' \<longrightarrow> conf_int_of sg' = Inr c' \<longrightarrow> c' < 90"
  proof (intro allI impI)
    fix i sg' c'
    assume "i < length pre"
      and "analyze_pair pc bc (length (fetched st) + 1 + i) (asset_code (pre ! i))
             (display_name (pre ! i)) = Some sg'"
      and "conf_int_of sg' = Inr c'"
    then show "c' < 90" using Cons.prems(2) [rule_format, of "Suc i" sg' c'] by simp
  qed
  have last: "analyze_pair pc bc (length (fetched st) + 1 + length pre) (asset_code p)
                (display_name p) = Some sg"
    using Cons.prems(3) by simp
  show ?case
  proof (cases "analyze_pair pc bc (length (fetched st)) (asset_code x) (display_name x)")
    case None
    have "select_loop pc bc (pre @ p # post) ?st1
           = (None, \<lparr>best_signal = Some sg, highest_confidence = c,
                     fetched = fetched ?st1 @ map asset_code pre @ [asset_code p]\<rparr>)"
      using Cons.prems(1) shift last Cons.prems(4,5) by (intro Cons.IH) simp_all
    then show ?thesis using None by simp
  next
    case (Some sg')
    from analyze_pair_conf_int [OF Some] obtain c' where c': "conf_int_of sg' = Inr c'" by blast
    have lt: "c' < 90" using Cons.prems(2) [rule_format, of 0 sg' c'] Some c' by simp
    let ?st2 = "if c' > highest_confidence ?st1
                then ?st1\<lparr>highest_confidence := c', best_signal := Some sg'\<rparr> else ?st1"
    have hc: "highest_confidence ?st2 < 90" using lt Cons.prems(1) by simp
    have f2: "fetched ?st2 = fetched st @ [asset_code x]" by simp
    have "select_loop pc bc (pre @ p # post) ?st2
           = (None, \<lparr>best_signal = Some sg, highest_confidence = c,
                     fetched = fetched ?st2 @ map asset_code pre @ [asset_code p]\<rparr>)"
      using hc shift last Cons.prems(4,5) by (intro Cons.IH) (simp_all only: f2, simp_all)
    then show ?thesis using Some c' hc by (simp add: Let_def)
  qed
qed

subsection \<open>The RSI window\<close>







subsection \<open>The asset resolver\<close>









section \<open>The claims\<close>

subsection \<open>C1: no eligible instruments\<close>




subsection \<open>C2: a running score of zero at the distance check\<close>

text \<open>
  C2, as the code has it: when the score is 0 after the trend and RSI checks, the slow
  average is not 0 and the price is within 0.2 percent of it, the distance check
  subtracts 20; the score \<open>-20\<close> is below the threshold, so no signal results.
\<close>

theorem zero_score_mean_reversion:
  assumes "fst (rsi_check s (trend_check s (0, []))) = 0"
    and "ma20 s \<noteq> 0"
    and "\<bar>snap_price s - ma20 s\<bar> / ma20 s < 0.002"
  shows "map_sum id fst (distance_check s (rsi_check s (trend_check s (0, [])))) = Inr (- 20)
         \<and> scoring_engine name s = Inr None"
  using assms
  by (simp add: distance_check_def py_div_def scoring_engine_def compile_signal_def)

text \<open>The theorem at an uptrend snapshot with RSI 70 and the price on the slow average.\<close>

theorem zero_score_mean_reversion_witness:
  "fst (rsi_check (uptrend_snapshot 100 70) (trend_check (uptrend_snapshot 100 70) (0, []))) = 0
   \<and> ma20 (uptrend_snapshot 100 70) \<noteq> 0
   \<and> \<bar>snap_price (uptrend_snapshot 100 70) - ma20 (uptrend_snapshot 100 70)\<bar>
        / ma20 (uptrend_snapshot 100 70) < 0.002
   \<and> scoring_engine ''EUR/USD (OTC)'' (uptrend_snapshot 100 70) = Inr None"
proof -
  have h1: "fst (rsi_check (uptrend_snapshot 100 70)
                  (trend_check (uptrend_snapshot 100 70) (0, []))) = 0"
    by (simp add: uptrend_snapshot_def rsi_check_def trend_check_def)
  have h2: "ma20 (uptrend_snapshot 100 70) \<noteq> 0" by (simp add: uptrend_snapshot_def)
  have h3: "\<bar>snap_price (uptrend_snapshot 100 70) - ma20 (uptrend_snapshot 100 70)\<bar>
        / ma20 (uptrend_snapshot 100 70) < 0.002" by (simp add: uptrend_snapshot_def)
  from zero_score_mean_reversion [OF h1 h2 h3, of "''EUR/USD (OTC)''"] h1 h2 h3
  show ?thesis by blast
qed

text \<open>
  C2 as stated fails: at that snapshot the score is 0 before the distance check and
  \<open>-20\<close> after it.
\<close>

theorem zero_score_loses_twenty:
  "fst (rsi_check (uptrend_snapshot 100 70) (trend_check (uptrend_snapshot 100 70) (0, []))) = 0
   \<and> \<bar>snap_price (uptrend_snapshot 100 70) - ma20 (uptrend_snapshot 100 70)\<bar>
        / ma20 (uptrend_snapshot 100 70) < 0.002
   \<and> map_sum id fst (distance_check (uptrend_snapshot 100 70)
        (rsi_check (uptrend_snapshot 100 70) (trend_check (uptrend_snapshot 100 70) (0, []))))
       = Inr (- 20)"
  by (simp add: uptrend_snapshot_def rsi_check_def trend_check_def distance_check_def py_div_def)

subsection \<open>C3: a login that fails\<close>

text \<open>When the connector rejects the login, the session is cleared and the reason is
  part of the detail of the error.\<close>

lemma login_rejected_clears_session:
  assumes "(case bot_client of Some old \<Rightarrow> close_result old | None \<Rightarrow> Returns ()) = Returns ()"
    and "connect_result (quotex (req_email req) (req_password req) ''en'') = Returns (False, reason)"
  shows "login quotex bot_client req
           = (HTTPError (HTTPException 500
                (StrOf (HTTPException 401 (Text (''Login failed: '' @ reason))))), None)"
  using assms by (simp add: login_def Let_def)

text \<open>
  C3 says that after every failed login the session is unset. When \<^verbatim>\<open>connect()\<close>
  raises, the error carries the message, but \<^verbatim>\<open>bot_client\<close> keeps the new,
  unconnected object: the assignment on line 166 is not undone.
\<close>

theorem login_connect_raises_keeps_session:
  "login timeout_quotex None demo_request
     = (HTTPError (HTTPException 500 (Text ''connection timed out'')),
        Some (timeout_quotex ''user@example.com'' ''secret'' ''en''))
   \<and> snd (login timeout_quotex None demo_request) \<noteq> None"
  by (simp add: login_def Let_def demo_request_def timeout_quotex_def)

subsection \<open>C8: resolving EUR/USD\<close>



subsection \<open>Evaluation at the concrete inputs\<close>

lemma strong_analysis:
  "analyze_candles Returns strong_candles name = Inr (Some (strong_signal name))"
  by code_simp

lemma strong_conf_int: "conf_int_of (strong_signal name) = Inr 98"
  by code_simp

lemma demo_analysis:
  "analyze_pair Returns (Some demo_client) 0 ''EURUSD_otc'' ''EUR/USD (OTC)''
     = Some (strong_signal ''EUR/USD (OTC)'')"
  by (simp add: analyze_pair_def analyze_body_def demo_client_def mk_client_def steady_feed_def
        of_outcome_def strong_analysis)

subsection \<open>C4: the range of the confidence\<close>

lemma compile_signal_conf:
  assumes "compile_signal name s (sc, lg) = Some sg"
  shows "\<exists>c. 60 \<le> c \<and> c \<le> 98 \<and> confidence sg = str_int c @ ''%''"
proof (cases "60 \<le> sc")
  case True
  with assms have "confidence sg = str_int (min sc 98) @ ''%''"
    by (auto simp: compile_signal_def make_signal_def)
  moreover have "60 \<le> min sc 98" "min sc 98 \<le> 98" using True by simp_all
  ultimately show ?thesis by blast
next
  case False
  with assms have le: "sc \<le> - 60" and "confidence sg = str_int (min \<bar>sc\<bar> 98) @ ''%''"
    by (auto simp: compile_signal_def make_signal_def split: if_splits)
  moreover have "60 \<le> min \<bar>sc\<bar> 98" "min \<bar>sc\<bar> 98 \<le> 98" using le by simp_all
  ultimately show ?thesis by blast
qed

text \<open>
  C4: whatever the running score, a compiled signal carries a confidence that is the
  decimal rendering of an integer from 60 to 98 followed by a percent sign; there is no
  signal exactly when the score lies strictly between \<open>-60\<close> and 60; the scores 60 and
  \<open>-60\<close> give signals of confidence 60. Every signal \<^verbatim>\<open>analyze_pair\<close> returns has
  such a confidence, and \<^verbatim>\<open>get_signal\<close> reads that integer back from it.
\<close>

theorem confidence_range:
  "(compile_signal name s (sc, lg) = Some sg
      \<longrightarrow> (\<exists>c. 60 \<le> c \<and> c \<le> 98 \<and> confidence sg = str_int c @ ''%''))
   \<and> (compile_signal name s (sc, lg) = None \<longleftrightarrow> - 60 < sc \<and> sc < 60)
   \<and> compile_signal name s (60, lg) = Some (make_signal name s CALL 60 lg)
   \<and> compile_signal name s (- 60, lg) = Some (make_signal name s PUT 60 lg)
   \<and> (scoring_engine name s = Inr (Some sg1)
      \<longrightarrow> (\<exists>c. 60 \<le> c \<and> c \<le> 98 \<and> confidence sg1 = str_int c @ ''%''
                \<and> conf_int_of sg1 = Inr c))
   \<and> (analyze_pair pc bot_client k code name = Some sg2
      \<longrightarrow> (\<exists>c. 60 \<le> c \<and> c \<le> 98 \<and> confidence sg2 = str_int c @ ''%''
                \<and> conf_int_of sg2 = Inr c))"
proof (intro conjI impI)
  assume "compile_signal name s (sc, lg) = Some sg"
  then show "\<exists>c. 60 \<le> c \<and> c \<le> 98 \<and> confidence sg = str_int c @ ''%''"
    by (rule compile_signal_conf)
next
  show "compile_signal name s (sc, lg) = None \<longleftrightarrow> - 60 < sc \<and> sc < 60"
    by (auto simp: compile_signal_def)
next
  show "compile_signal name s (60, lg) = Some (make_signal name s CALL 60 lg)"
    by (simp add: compile_signal_def)
next
  show "compile_signal name s (- 60, lg) = Some (make_signal name s PUT 60 lg)"
    by (simp add: compile_signal_def)
next
  assume "scoring_engine name s = Inr (Some sg1)"
  from scoring_engine_conf_int [OF this]
  show "\<exists>c. 60 \<le> c \<and> c \<le> 98 \<and> confidence sg1 = str_int c @ ''%'' \<and> conf_int_of sg1 = Inr c"
    by auto
next
  assume "analyze_pair pc bot_client k code name = Some sg2"
  from analyze_pair_conf_int [OF this]
  show "\<exists>c. 60 \<le> c \<and> c \<le> 98 \<and> confidence sg2 = str_int c @ ''%'' \<and> conf_int_of sg2 = Inr c"
    by auto
qed

text \<open>The theorem at the strong candles: a confidence of 98.\<close>

theorem confidence_range_witness:
  "analyze_pair Returns (Some demo_client) 0 ''EURUSD_otc'' ''EUR/USD (OTC)''
     = Some (strong_signal ''EUR/USD (OTC)'')
   \<and> conf_int_of (strong_signal ''EUR/USD (OTC)'') = Inr 98
   \<and> (60::int) \<le> 98 \<and> (98::int) \<le> 98"
  using confidence_range [of "''EUR/USD (OTC)''" "uptrend_snapshot 100 30" 100 "[]"
      "strong_signal ''EUR/USD (OTC)''" "strong_signal ''EUR/USD (OTC)''"
      Returns "Some demo_client" 0 "''EURUSD_otc''" "strong_signal ''EUR/USD (OTC)''"]
  by (simp add: demo_analysis strong_conf_int)

subsection \<open>C5: the RSI never divides by zero\<close>



subsection \<open>C6: early exit\<close>

lemma get_signal_logged_in:
  assumes "get_high_payout_pairs (Some bc) = pairs" and "pairs \<noteq> []"
    and "select_loop pc (Some bc) pairs \<lparr>best_signal = None, highest_confidence = 0, fetched = []\<rparr>
           = (None, st)"
  shows "get_signal pc (Some bc)
           = (case best_signal st of
                Some sg \<Rightarrow> (Reply (StatusData ''success'' sg), fetched st)
              | None \<Rightarrow>
                  (Reply (StatusMessage ''waiting''
                     ''No strong setups found right now. Try again in 1 minute.''),
                   fetched st))"
  using assms by (simp add: get_signal_def Let_def)

text \<open>
  C6: let the ranked candidates be \<open>pre @ p # post\<close>, where no candidate of \<open>pre\<close>
  yields a signal of confidence 90 or more and \<open>p\<close> yields the signal \<open>sg\<close> of
  confidence at least 90. Then \<^verbatim>\<open>get_signal\<close> answers \<^verbatim>\<open>success\<close> with \<open>sg\<close>, and
  the candle fetches it made are those of \<open>pre\<close> and of \<open>p\<close>, in order: none for a
  candidate of \<open>post\<close>.
\<close>

theorem early_exit:
  assumes "get_high_payout_pairs (Some bc) = pre @ p # post"
    and "\<forall>i<length pre. \<forall>sg' c'.
           analyze_pair pc (Some bc) i (asset_code (pre ! i)) (display_name (pre ! i)) = Some sg'
             \<longrightarrow> conf_int_of sg' = Inr c' \<longrightarrow> c' < 90"
    and "analyze_pair pc (Some bc) (length pre) (asset_code p) (display_name p) = Some sg"
    and "conf_int_of sg = Inr c" and "90 \<le> c"
  shows "get_signal pc (Some bc)
           = (Reply (StatusData ''success'' sg), map asset_code pre @ [asset_code p])"
proof -
  let ?st0 = "\<lparr>best_signal = None, highest_confidence = 0, fetched = []\<rparr>"
  have "select_loop pc (Some bc) (pre @ p # post) ?st0
          = (None, \<lparr>best_signal = Some sg, highest_confidence = c,
                    fetched = fetched ?st0 @ map asset_code pre @ [asset_code p]\<rparr>)"
    using assms(2-5) by (intro select_loop_breaks) simp_all
  then show ?thesis
    using get_signal_logged_in [OF assms(1), of pc] by simp
qed

lemma staged_pairs:
  "get_high_payout_pairs (Some staged_client)
     = [\<lparr>asset_code = ''EURUSD_otc'', payout = 95, display_name = ''EUR/USD (OTC)''\<rparr>]
       @ \<lparr>asset_code = ''GBPUSD_otc'', payout = 93, display_name = ''GBP/USD (OTC)''\<rparr>
       # [\<lparr>asset_code = ''USDJPY_otc'', payout = 91, display_name = ''USD/JPY (OTC)''\<rparr>]"
  by code_simp

lemma staged_first:
  "analyze_pair Returns (Some staged_client) 0 ''EURUSD_otc'' ''EUR/USD (OTC)'' = None"
  by (simp add: analyze_pair_def analyze_body_def staged_client_def mk_client_def staged_feed_def
        of_outcome_def analyze_candles_def)

lemma staged_second:
  "analyze_pair Returns (Some staged_client) (Suc 0) ''GBPUSD_otc'' ''GBP/USD (OTC)''
     = Some (strong_signal ''GBP/USD (OTC)'')"
  by (simp add: analyze_pair_def analyze_body_def staged_client_def mk_client_def staged_feed_def
        of_outcome_def strong_analysis)

text \<open>
  The theorem at three candidates: the first has no candles, the second scores 98, the
  third is never fetched.
\<close>

theorem early_exit_witness:
  "analyze_pair Returns (Some staged_client) 0 ''EURUSD_otc'' ''EUR/USD (OTC)'' = None
   \<and> analyze_pair Returns (Some staged_client) (Suc 0) ''GBPUSD_otc'' ''GBP/USD (OTC)''
       = Some (strong_signal ''GBP/USD (OTC)'')
   \<and> conf_int_of (strong_signal ''GBP/USD (OTC)'') = Inr 98
   \<and> map asset_code (get_high_payout_pairs (Some staged_client))
       = [''EURUSD_otc'', ''GBPUSD_otc'', ''USDJPY_otc'']
   \<and> get_signal Returns (Some staged_client)
       = (Reply (StatusData ''success'' (strong_signal ''GBP/USD (OTC)'')),
          [''EURUSD_otc'', ''GBPUSD_otc''])"
proof -
  let ?pre = "[\<lparr>asset_code = ''EURUSD_otc'', payout = 95, display_name = ''EUR/USD (OTC)''\<rparr>]"
  let ?p = "\<lparr>asset_code = ''GBPUSD_otc'', payout = 93, display_name = ''GBP/USD (OTC)''\<rparr>"
  have h2: "\<forall>i<length ?pre. \<forall>sg' c'.
           analyze_pair Returns (Some staged_client) i (asset_code (?pre ! i))
             (display_name (?pre ! i)) = Some sg'
             \<longrightarrow> conf_int_of sg' = Inr c' \<longrightarrow> c' < 90"
    by (simp add: staged_first)
  have h3: "analyze_pair Returns (Some staged_client) (length ?pre) (asset_code ?p)
              (display_name ?p) = Some (strong_signal ''GBP/USD (OTC)'')"
    by (simp add: staged_second)
  have h5: "(90::int) \<le> 98" by simp
  from early_exit [OF staged_pairs h2 h3 strong_conf_int h5]
  show ?thesis by (simp add: staged_first staged_second strong_conf_int staged_pairs)
qed

subsection \<open>C7: the analysis is a function of the snapshot\<close>






subsection \<open>C9: a failing candidate is skipped\<close>






subsection \<open>C10: the three confidence values\<close>

text \<open>
  C10: the confidence of every signal returned by \<^verbatim>\<open>analyze_pair\<close>, and of every
  signal of the scoring engine, is 60, 80 or 98 percent, and each of the three is reached
  by some snapshot.
\<close>

theorem confidence_values:
  "(analyze_pair pc bot_client k code name = Some sg
      \<longrightarrow> confidence sg \<in> {''60%'', ''80%'', ''98%''}
          \<and> conf_int_of sg \<in> {Inr 60, Inr 80, Inr 98})
   \<and> (scoring_engine name s = Inr (Some sg') \<longrightarrow> confidence sg' \<in> {''60%'', ''80%'', ''98%''})
   \<and> map_sum id (map_option confidence) (scoring_engine name (uptrend_snapshot 100 50))
       = Inr (Some ''60%'')
   \<and> map_sum id (map_option confidence) (scoring_engine name (uptrend_snapshot 110 30))
       = Inr (Some ''80%'')
   \<and> map_sum id (map_option confidence) (scoring_engine name (uptrend_snapshot 100 30))
       = Inr (Some ''98%'')"
proof (intro conjI impI)
  assume "analyze_pair pc bot_client k code name = Some sg"
  from analyze_pair_conf_int [OF this] obtain c where
    c: "c \<in> {60, 80, 98}" "confidence sg = str_int c @ ''%''" "conf_int_of sg = Inr c"
    by blast
  from c(1,2) show "confidence sg \<in> {''60%'', ''80%'', ''98%''}"
    using conf_strings by auto
  from c(1,3) show "conf_int_of sg \<in> {Inr 60, Inr 80, Inr 98}" by auto
next
  assume "scoring_engine name s = Inr (Some sg')"
  from scoring_engine_signal [OF this] obtain dir c lg where
    "c \<in> {60, 80, 98}" "sg' = make_signal name s dir c lg" by blast
  then show "confidence sg' \<in> {''60%'', ''80%'', ''98%''}"
    using conf_strings by (auto simp: make_signal_def)
next
  show "map_sum id (map_option confidence) (scoring_engine name (uptrend_snapshot 100 50))
       = Inr (Some ''60%'')"
    using conf_strings
    by (simp add: scoring_engine_def distance_check_def rsi_check_def trend_check_def
          compile_signal_def make_signal_def py_div_def uptrend_snapshot_def)
next
  show "map_sum id (map_option confidence) (scoring_engine name (uptrend_snapshot 110 30))
       = Inr (Some ''80%'')"
    using conf_strings
    by (simp add: scoring_engine_def distance_check_def rsi_check_def trend_check_def
          compile_signal_def make_signal_def py_div_def uptrend_snapshot_def)
next
  show "map_sum id (map_option confidence) (scoring_engine name (uptrend_snapshot 100 30))
       = Inr (Some ''98%'')"
    using conf_strings
    by (simp add: scoring_engine_def distance_check_def rsi_check_def trend_check_def
          compile_signal_def make_signal_def py_div_def uptrend_snapshot_def)
qed

lemma demo_second:
  "analyze_pair Returns (Some demo_client) (Suc 0) ''GBPUSD_otc'' ''GBP/USD (OTC)''
     = Some (strong_signal ''GBP/USD (OTC)'')"
  by (simp add: analyze_pair_def analyze_body_def demo_client_def mk_client_def steady_feed_def
        of_outcome_def strong_analysis)

text \<open>The theorem at the strong candles.\<close>

theorem confidence_values_witness:
  "analyze_pair Returns (Some demo_client) (Suc 0) ''GBPUSD_otc'' ''GBP/USD (OTC)''
     = Some (strong_signal ''GBP/USD (OTC)'')
   \<and> confidence (strong_signal ''GBP/USD (OTC)'') = ''98%''
   \<and> confidence (strong_signal ''GBP/USD (OTC)'') \<in> {''60%'', ''80%'', ''98%''}
   \<and> conf_int_of (strong_signal ''GBP/USD (OTC)'') \<in> {Inr 60, Inr 80, Inr 98}"
  using confidence_values [of Returns "Some demo_client" "Suc 0" "''GBPUSD_otc''"
      "''GBP/USD (OTC)''" "strong_signal ''GBP/USD (OTC)''" "uptrend_snapshot 100 30"
      "strong_signal ''GBP/USD (OTC)''"]
  by (simp add: demo_second strong_signal_def)

end
